theory Spec2Isabelle
  imports Main
begin

section \<open>Values, exceptions and calendar dates\<close>

text \<open>
  The program is Python. A value that crosses one of the interfaces of \<open>Main\<close> is
  \<open>None\<close>, a boolean, an integer or a commit dictionary (dates to numbers of commits,
  kept as an association list). A call either returns such a value or raises an
  exception; a raised exception is \<open>Inl\<close>, a returned value is \<open>Inr\<close>.
\<close>

datatype date = Date nat nat nat

datatype pyval =
    PNone
  | PBool bool
  | PInt int
  | PDict "(date \<times> int) list"

datatype exn =
    TypeError
  | AttributeError
  | NotImplementedError
  | OtherError string

type_synonym outcome = "exn + pyval"

text \<open>Truth value testing as Python's \<open>if\<close> and \<open>not\<close> do it.\<close>

fun truthy :: "pyval \<Rightarrow> bool" where
  "truthy PNone = False"
| "truthy (PBool b) = b"
| "truthy (PInt n) = (n \<noteq> 0)"
| "truthy (PDict d) = (d \<noteq> [])"

section \<open>Collaborators of \<open>Main\<close>\<close>

text \<open>
  \<open>Main\<close> is constructed from a converter, a commiter and a data accessor and calls
  them through their methods only. Each collaborator is therefore a record of methods
  over a state of the outside world \<open>'w\<close> (the storage medium, the repository the
  commits go to, the system clock): a method takes the world, returns or raises, and
  leaves a world behind. An argument that a call site omits is \<open>None\<close> in an
  \<open>option\<close> parameter.
\<close>

type_synonym 'w meth = "'w \<Rightarrow> outcome \<times> 'w"

record 'w IConverter =
  convert :: "string option \<Rightarrow> 'w meth"

record 'w Commiter =
  commit :: "pyval \<Rightarrow> 'w meth"

record 'w DataAccess =
  dbLocation :: string
  createDict :: "pyval \<Rightarrow> 'w meth"
  readDate :: "date \<Rightarrow> 'w meth"
  getStatus :: "'w meth"
  hasRun :: "date option \<Rightarrow> 'w meth"
  logRun :: "date \<Rightarrow> 'w meth"

text \<open>
  The two library modules \<open>Main.py\<close> uses: \<open>datetime.date.today()\<close> reads the
  clock of the world, and \<open>schedule_every\<close> stands for the evaluation of the whole
  registration expression of \<open>Main.run\<close>, given the time of day.
\<close>

record 'w modules =
  date_today :: "'w \<Rightarrow> date"
  schedule_every :: "string \<Rightarrow> 'w meth"

record 'w Main =
  converter :: "'w IConverter"
  commiter :: "'w Commiter"
  data_accesor :: "'w DataAccess"
  schedule_time :: string

text \<open>\<open>Main.__init__\<close>\<close>

definition Main_init :: "'w IConverter \<Rightarrow> 'w Commiter \<Rightarrow> 'w DataAccess \<Rightarrow> 'w Main" where
  "Main_init conv comm da =
     \<lparr>converter = conv, commiter = comm, data_accesor = da, schedule_time = ''06:00''\<rparr>"

section \<open>Call traces\<close>

text \<open>
  Every call that \<open>Main\<close> makes on a collaborator is recorded, in order, with its
  arguments and its outcome.
\<close>

datatype event =
    EGetStatus outcome
  | EConvert "string option" outcome
  | ECreateDict pyval outcome
  | EHasRun "date option" outcome
  | EReadDate date outcome
  | ECommit pyval outcome
  | ELogRun date outcome
  | ESchedule string outcome

type_synonym 'w result = "outcome \<times> 'w \<times> event list"

definition call :: "(outcome \<Rightarrow> event) \<Rightarrow> 'w meth \<Rightarrow> 'w \<Rightarrow> 'w result" where
  "call ev f w = (case f w of (r, w') \<Rightarrow> (r, w', [ev r]))"

text \<open>
  Sequencing of two statements: an exception of the first ends the execution (there is
  no \<open>try\<close> in \<open>Main.py\<close>), otherwise the second runs on the world the first left.
\<close>

definition bind :: "'w result \<Rightarrow> (pyval \<Rightarrow> 'w \<Rightarrow> 'w result) \<Rightarrow> 'w result" where
  "bind r f =
     (case r of
        (Inl e, w, t) \<Rightarrow> (Inl e, w, t)
      | (Inr v, w, t) \<Rightarrow> (case f v w of (r', w', t') \<Rightarrow> (r', w', t @ t')))"

definition trace :: "'w result \<Rightarrow> event list" where
  "trace r = snd (snd r)"

definition final :: "'w result \<Rightarrow> 'w" where
  "final r = fst (snd r)"

fun is_commit :: "event \<Rightarrow> bool" where
  "is_commit (ECommit n r) = True"
| "is_commit e = False"

fun is_logRun :: "event \<Rightarrow> bool" where
  "is_logRun (ELogRun d r) = True"
| "is_logRun e = False"

fun is_convert :: "event \<Rightarrow> bool" where
  "is_convert (EConvert u r) = True"
| "is_convert e = False"

fun is_createDict :: "event \<Rightarrow> bool" where
  "is_createDict (ECreateDict p r) = True"
| "is_createDict e = False"

fun is_schedule :: "event \<Rightarrow> bool" where
  "is_schedule (ESchedule t r) = True"
| "is_schedule e = False"

section \<open>\<open>Main.py\<close>\<close>

text \<open>
  \<open>Main._runCommit\<close>: the date is read once; \<open>hasRun(today)\<close> ends the method when
  it is true; otherwise the count is read, \<open>commit\<close> is called with it and, once
  \<open>commit\<close> has returned, \<open>logRun(today)\<close> is called. The value \<open>commit\<close> returns is
  dropped.
\<close>

definition runCommit :: "'w modules \<Rightarrow> 'w Main \<Rightarrow> 'w \<Rightarrow> 'w result" where
  "runCommit md m w0 =
     (let today = date_today md w0 in
      bind (call (EHasRun (Some today)) (hasRun (data_accesor m) (Some today)) w0) (\<lambda>h w1.
        if truthy h then (Inr PNone, w1, [])
        else
          bind (call (EReadDate today) (readDate (data_accesor m) today) w1) (\<lambda>commit_num w2.
          bind (call (ECommit commit_num) (commit (commiter m) commit_num) w2) (\<lambda>c w3.
          bind (call (ELogRun today) (logRun (data_accesor m) today) w3) (\<lambda>l w4.
            (Inr PNone, w4, []))))))"

text \<open>\<open>Main.setupPlan\<close>: \<open>convert\<close> is called without an argument.\<close>

definition setupPlan :: "'w Main \<Rightarrow> 'w \<Rightarrow> 'w result" where
  "setupPlan m w0 =
     bind (call (EConvert None) (convert (converter m) None) w0) (\<lambda>commit_plan w1.
     bind (call (ECreateDict commit_plan) (createDict (data_accesor m) commit_plan) w1) (\<lambda>c w2.
       (Inr PNone, w2, [])))"

text \<open>
  \<open>Main.run\<close>: \<open>hasRun\<close> is called without a date here; the registration of the
  daily job is the last statement.
\<close>

definition run :: "'w modules \<Rightarrow> 'w Main \<Rightarrow> 'w \<Rightarrow> 'w result" where
  "run md m w0 =
     bind (call EGetStatus (getStatus (data_accesor m)) w0) (\<lambda>s w1.
     bind (if \<not> truthy s then setupPlan m w1 else (Inr PNone, w1, [])) (\<lambda>p w2.
     bind (call (EHasRun None) (hasRun (data_accesor m) None) w2) (\<lambda>h w3.
     bind (if \<not> truthy h then runCommit md m w3 else (Inr PNone, w3, [])) (\<lambda>c w4.
     bind (call (ESchedule (schedule_time m)) (schedule_every md (schedule_time m)) w4) (\<lambda>j w5.
       (Inr PNone, w5, []))))))"

section \<open>The classes of the repository\<close>

text \<open>
  \<open>DataAccess.py\<close>: the constructor keeps the location; every method body is
  \<open>pass\<close>, so every call returns \<open>None\<close> and changes nothing. \<open>hasRun\<close> declares a \<open>date\<close> parameter with no default, so a
  call without it raises \<open>TypeError\<close>.
\<close>

definition DataAccess_createDict :: "pyval \<Rightarrow> 'w meth" where
  "DataAccess_createDict commits w = (Inr PNone, w)"

definition DataAccess_readDate :: "date \<Rightarrow> 'w meth" where
  "DataAccess_readDate d w = (Inr PNone, w)"

definition DataAccess_getStatus :: "'w meth" where
  "DataAccess_getStatus w = (Inr PNone, w)"

definition DataAccess_hasRun :: "date option \<Rightarrow> 'w meth" where
  "DataAccess_hasRun d w = (case d of None \<Rightarrow> (Inl TypeError, w) | Some x \<Rightarrow> (Inr PNone, w))"

definition DataAccess_logRun :: "date \<Rightarrow> 'w meth" where
  "DataAccess_logRun d w = (Inr PNone, w)"

definition DataAccess_init :: "string \<Rightarrow> 'w DataAccess" where
  "DataAccess_init loc =
     \<lparr>dbLocation = loc,
      createDict = DataAccess_createDict, readDate = DataAccess_readDate,
      getStatus = DataAccess_getStatus, hasRun = DataAccess_hasRun,
      logRun = DataAccess_logRun\<rparr>"

text \<open>
  \<open>Converter.py\<close>: \<open>IConverter.convert\<close> declares a \<open>srcUri\<close> parameter with no
  default and its body raises \<open>NotImplementedError\<close>.
\<close>

definition IConverter_convert :: "string option \<Rightarrow> 'w meth" where
  "IConverter_convert srcUri w =
     (case srcUri of None \<Rightarrow> (Inl TypeError, w) | Some u \<Rightarrow> (Inl NotImplementedError, w))"

definition IConverter_init :: "'w IConverter" where
  "IConverter_init = \<lparr>convert = IConverter_convert\<rparr>"

section \<open>A store that keeps the contract, and sample collaborators\<close>

text \<open>
  A concrete world: the clock, the storage medium (writable or not, the persisted plan,
  the run log) and the counts the commiter was asked to perform.
\<close>

record world =
  clock :: date
  writable :: bool
  plan :: "(date \<times> int) list option"
  runlog :: "date list"
  performed :: "pyval list"

text \<open>
  Modelled from the spec: the bodies of \<open>DataAccess.py\<close> are missing (each is
  \<open>pass\<close>), so the store that keeps the PlanStore contract of the specification is
  written from its section 4.1. \<open>getStatus\<close> is true iff a plan has been written;
  \<open>createDict\<close> writes the plan and fails when the medium cannot be written;
  \<open>readDate\<close> is the planned count, 0 for a date absent from the plan; \<open>hasRun\<close> is
  membership in the run log; \<open>logRun\<close> adds the date to the run log and fails when the
  medium cannot be written. The signatures are those of \<open>DataAccess.py\<close>, so
  \<open>hasRun\<close> without a date raises \<open>TypeError\<close>.
\<close>

definition PlanStore_createDict :: "pyval \<Rightarrow> world meth" where
  "PlanStore_createDict commits w =
     (case commits of
        PDict p \<Rightarrow>
          if writable w then (Inr PNone, w\<lparr>plan := Some p\<rparr>)
          else (Inl (OtherError ''StorageFailure''), w)
      | v \<Rightarrow> (Inl TypeError, w))"

definition PlanStore_readDate :: "date \<Rightarrow> world meth" where
  "PlanStore_readDate d w =
     (Inr (PInt (case plan w of
                   None \<Rightarrow> 0
                 | Some p \<Rightarrow> (case map_of p d of None \<Rightarrow> 0 | Some n \<Rightarrow> n))), w)"

definition PlanStore_getStatus :: "world meth" where
  "PlanStore_getStatus w = (Inr (PBool (plan w \<noteq> None)), w)"

definition PlanStore_hasRun :: "date option \<Rightarrow> world meth" where
  "PlanStore_hasRun d w =
     (case d of
        None \<Rightarrow> (Inl TypeError, w)
      | Some x \<Rightarrow> (Inr (PBool (x \<in> set (runlog w))), w))"

definition PlanStore_logRun :: "date \<Rightarrow> world meth" where
  "PlanStore_logRun d w =
     (if writable w then (Inr PNone, w\<lparr>runlog := List.insert d (runlog w)\<rparr>)
      else (Inl (OtherError ''StorageFailure''), w))"

definition PlanStore :: "world DataAccess" where
  "PlanStore =
     \<lparr>dbLocation = ''db'',
      createDict = PlanStore_createDict, readDate = PlanStore_readDate,
      getStatus = PlanStore_getStatus, hasRun = PlanStore_hasRun,
      logRun = PlanStore_logRun\<rparr>"

text \<open>
  The same store behind a \<open>hasRun\<close> whose date defaults to the current date, so that
  the call without a date in \<open>Main.run\<close> is answered.
\<close>

definition PlanStore_today :: "world DataAccess" where
  "PlanStore_today =
     PlanStore\<lparr>hasRun :=
       (\<lambda>d w. PlanStore_hasRun (Some (case d of None \<Rightarrow> clock w | Some x \<Rightarrow> x)) w)\<rparr>"

text \<open>
  Modelled from the spec: \<open>Commiter.py\<close> is not among the sources. The specification
  gives \<open>perform(count)\<close> a result that is success or failure; in Python a failure can
  also be an exception. A failure is reported by raising or by returning \<open>False\<close>.
\<close>

fun reports_failure :: "outcome \<Rightarrow> bool" where
  "reports_failure (Inl e) = True"
| "reports_failure (Inr v) = (v = PBool False)"

text \<open>
  Sample commiters: one that performs the count and returns \<open>None\<close>, one that returns
  \<open>False\<close>, one that raises, and one that performs the count while midnight passes.
\<close>

definition Commiter_ok :: "world Commiter" where
  "Commiter_ok = \<lparr>commit = (\<lambda>n w. (Inr PNone, w\<lparr>performed := performed w @ [n]\<rparr>))\<rparr>"

definition Commiter_reporting :: "world Commiter" where
  "Commiter_reporting = \<lparr>commit = (\<lambda>n w. (Inr (PBool False), w))\<rparr>"

definition Commiter_raising :: "world Commiter" where
  "Commiter_raising = \<lparr>commit = (\<lambda>n w. (Inl (OtherError ''commit failed''), w))\<rparr>"

definition Commiter_overnight :: "world Commiter" where
  "Commiter_overnight =
     \<lparr>commit = (\<lambda>n w. (Inr PNone,
        w\<lparr>clock := Date 2024 1 2, performed := performed w @ [n]\<rparr>))\<rparr>"

text \<open>Sample converters: one returns the plan of the specification's scenario, one \<open>None\<close>.\<close>

definition plan_sample :: "(date \<times> int) list" where
  "plan_sample = [(Date 2024 1 1, 3), (Date 2024 1 2, 0)]"

definition Converter_sample :: "world IConverter" where
  "Converter_sample = \<lparr>convert = (\<lambda>u w. (Inr (PDict plan_sample), w))\<rparr>"

definition Converter_none :: "world IConverter" where
  "Converter_none = \<lparr>convert = (\<lambda>u w. (Inr PNone, w))\<rparr>"

text \<open>
  The modules over the concrete world. The registration expression of \<open>Main.run\<close> is
  \<open>schedule.every().data.at(...).do(...)\<close>; a job of the \<open>schedule\<close> library has
  \<open>day\<close> but no \<open>data\<close>, so evaluating it raises \<open>AttributeError\<close> and registers
  nothing.
\<close>

definition modules_sample :: "world modules" where
  "modules_sample =
     \<lparr>date_today = clock,
      schedule_every = (\<lambda>t w. (Inl AttributeError, w))\<rparr>"

text \<open>
  Sample worlds: nothing written yet; the plan written and 2024-01-01 (count 3) not run;
  2024-01-02 (count 0) not run; 2024-01-01 already run.
\<close>

definition w_fresh :: world where
  "w_fresh = \<lparr>clock = Date 2024 1 1, writable = True, plan = None, runlog = [],
              performed = []\<rparr>"

definition w_day1 :: world where
  "w_day1 = w_fresh\<lparr>plan := Some plan_sample\<rparr>"

definition w_day2 :: world where
  "w_day2 = w_day1\<lparr>clock := Date 2024 1 2\<rparr>"

definition w_done :: world where
  "w_done = w_day1\<lparr>runlog := [Date 2024 1 1]\<rparr>"

text \<open>
  A method keeps an observation of the world (the persisted plan, say) when no call of
  it changes the observation. \<open>plan_readers\<close> holds when every method that \<open>Main\<close>
  calls keeps the observation, \<open>convert\<close> and \<open>createDict\<close> apart.
\<close>

definition keeps :: "('w \<Rightarrow> 'p) \<Rightarrow> 'w meth \<Rightarrow> bool" where
  "keeps obs f = (\<forall>w. obs (snd (f w)) = obs w)"

definition plan_readers :: "('w \<Rightarrow> 'p) \<Rightarrow> 'w modules \<Rightarrow> 'w Main \<Rightarrow> bool" where
  "plan_readers obs md m =
     (keeps obs (getStatus (data_accesor m))
      \<and> (\<forall>d. keeps obs (hasRun (data_accesor m) d))
      \<and> (\<forall>d. keeps obs (readDate (data_accesor m) d))
      \<and> (\<forall>d. keeps obs (logRun (data_accesor m) d))
      \<and> (\<forall>n. keeps obs (commit (commiter m) n))
      \<and> (\<forall>t. keeps obs (schedule_every md t)))"

lemmas sample_defs =
  Main_init_def PlanStore_def PlanStore_today_def PlanStore_createDict_def
  PlanStore_readDate_def PlanStore_getStatus_def PlanStore_hasRun_def PlanStore_logRun_def
  Commiter_ok_def Commiter_reporting_def Commiter_raising_def Commiter_overnight_def
  Converter_sample_def Converter_none_def plan_sample_def modules_sample_def
  w_fresh_def w_day1_def w_day2_def w_done_def
  DataAccess_init_def DataAccess_createDict_def DataAccess_readDate_def
  DataAccess_getStatus_def DataAccess_hasRun_def DataAccess_logRun_def
  IConverter_init_def IConverter_convert_def

lemmas exec_defs =
  runCommit_def setupPlan_def run_def bind_def call_def trace_def final_def Let_def

section \<open>The run decision of \<open>Main._runCommit\<close>\<close>

lemma runCommit_no_bootstrap_calls:
  assumes "runCommit md m w = (r, w', t)"
  shows "filter is_convert t = [] \<and> filter is_createDict t = []"
  using assms
  by (auto simp: runCommit_def bind_def call_def Let_def
           split: prod.splits sum.splits if_splits)

text \<open>
  C1. When \<open>hasRun(today)\<close> is true, \<open>_runCommit\<close> returns (with \<open>None\<close>) on the
  world that \<open>hasRun\<close> left, and its trace holds no call of \<open>commit\<close> and no call
  of \<open>logRun\<close>.
\<close>

theorem runCommit_already_run:
  assumes "hasRun (data_accesor m) (Some (date_today md w)) w = (Inr h, w')"
    and "truthy h"
  shows "fst (runCommit md m w) = Inr PNone
       \<and> final (runCommit md m w) = w'
       \<and> filter is_commit (trace (runCommit md m w)) = []
       \<and> filter is_logRun (trace (runCommit md m w)) = []"
  using assms
  by (simp add: runCommit_def bind_def call_def Let_def trace_def final_def)

theorem runCommit_already_run_witness:
  "hasRun (data_accesor (Main_init Converter_sample Commiter_ok PlanStore))
       (Some (date_today modules_sample w_done)) w_done = (Inr (PBool True), w_done)
   \<and> truthy (PBool True)
   \<and> fst (runCommit modules_sample (Main_init Converter_sample Commiter_ok PlanStore) w_done)
       = Inr PNone
   \<and> final (runCommit modules_sample (Main_init Converter_sample Commiter_ok PlanStore) w_done)
       = w_done
   \<and> filter is_commit
       (trace (runCommit modules_sample (Main_init Converter_sample Commiter_ok PlanStore) w_done))
       = []
   \<and> filter is_logRun
       (trace (runCommit modules_sample (Main_init Converter_sample Commiter_ok PlanStore) w_done))
       = []"
proof -
  have h: "hasRun (data_accesor (Main_init Converter_sample Commiter_ok PlanStore))
       (Some (date_today modules_sample w_done)) w_done = (Inr (PBool True), w_done)"
    by (simp add: sample_defs)
  have t: "truthy (PBool True)" by simp
  show ?thesis using h t runCommit_already_run [OF h t] by simp
qed

text \<open>
  C2, as stated, fails: on 2024-01-02, not yet run and planned with count 0,
  \<open>_runCommit\<close> calls \<open>commit\<close> (with 0).
\<close>

theorem zero_count_day_calls_commit:
  "fst (hasRun PlanStore (Some (Date 2024 1 2)) w_day2) = Inr (PBool False)
   \<and> fst (readDate PlanStore (Date 2024 1 2) w_day2) = Inr (PInt 0)
   \<and> filter is_commit
       (trace (runCommit modules_sample (Main_init Converter_sample Commiter_ok PlanStore) w_day2))
       = [ECommit (PInt 0) (Inr PNone)]"
  by (simp add: exec_defs sample_defs)

text \<open>
  C2, amended. For a date that has not run and whose planned count is 0,
  \<open>_runCommit\<close> calls \<open>commit(0)\<close> and, when that call returns, calls
  \<open>logRun(today)\<close>; when \<open>logRun\<close> returns, \<open>_runCommit\<close> returns on the world
  \<open>logRun\<close> left.
\<close>

theorem runCommit_zero_count:
  assumes "hasRun (data_accesor m) (Some (date_today md w)) w = (Inr h, w1)"
    and "\<not> truthy h"
    and "readDate (data_accesor m) (date_today md w) w1 = (Inr (PInt 0), w2)"
    and "commit (commiter m) (PInt 0) w2 = (Inr c, w3)"
    and "logRun (data_accesor m) (date_today md w) w3 = (Inr l, w4)"
  shows "runCommit md m w =
           (Inr PNone, w4,
            [EHasRun (Some (date_today md w)) (Inr h),
             EReadDate (date_today md w) (Inr (PInt 0)),
             ECommit (PInt 0) (Inr c),
             ELogRun (date_today md w) (Inr l)])"
  using assms
  by (simp add: runCommit_def bind_def call_def Let_def)

theorem runCommit_zero_count_witness:
  "runCommit modules_sample (Main_init Converter_sample Commiter_ok PlanStore) w_day2 =
     (Inr PNone,
      w_day2\<lparr>runlog := [Date 2024 1 2], performed := [PInt 0]\<rparr>,
      [EHasRun (Some (Date 2024 1 2)) (Inr (PBool False)),
       EReadDate (Date 2024 1 2) (Inr (PInt 0)),
       ECommit (PInt 0) (Inr PNone),
       ELogRun (Date 2024 1 2) (Inr PNone)])
   \<and> fst (hasRun PlanStore (Some (Date 2024 1 2))
            (w_day2\<lparr>runlog := [Date 2024 1 2], performed := [PInt 0]\<rparr>))
       = Inr (PBool True)"
  using runCommit_zero_count
    [of "Main_init Converter_sample Commiter_ok PlanStore" modules_sample w_day2
        "PBool False" w_day2 w_day2 PNone "w_day2\<lparr>performed := [PInt 0]\<rparr>" PNone
        "w_day2\<lparr>runlog := [Date 2024 1 2], performed := [PInt 0]\<rparr>"]
  by (simp add: sample_defs)

text \<open>
  C3, as stated, fails: on 2024-01-01 (count 3, not run) a commiter that reports failure
  by the value it returns is followed by \<open>logRun\<close>, and \<open>hasRun\<close> is true afterwards.
\<close>

theorem reported_failure_marks_run:
  "reports_failure (fst (commit Commiter_reporting (PInt 3) w_day1))
   \<and> fst (hasRun PlanStore (Some (Date 2024 1 1)) w_day1) = Inr (PBool False)
   \<and> fst (readDate PlanStore (Date 2024 1 1) w_day1) = Inr (PInt 3)
   \<and> filter is_logRun
       (trace (runCommit modules_sample
                 (Main_init Converter_sample Commiter_reporting PlanStore) w_day1))
       = [ELogRun (Date 2024 1 1) (Inr PNone)]
   \<and> fst (hasRun PlanStore (Some (Date 2024 1 1))
            (final (runCommit modules_sample
                      (Main_init Converter_sample Commiter_reporting PlanStore) w_day1)))
       = Inr (PBool True)"
  by (simp add: exec_defs sample_defs)

text \<open>
  C3, amended. For a date that has not run, if \<open>commit\<close> fails by raising an
  exception, \<open>_runCommit\<close> ends there: \<open>logRun\<close> is not called, the world is the one
  \<open>commit\<close> left, and the exception leaves \<open>_runCommit\<close>.
\<close>

theorem runCommit_commit_raises:
  assumes "hasRun (data_accesor m) (Some (date_today md w)) w = (Inr h, w1)"
    and "\<not> truthy h"
    and "readDate (data_accesor m) (date_today md w) w1 = (Inr n, w2)"
    and "commit (commiter m) n w2 = (Inl e, w3)"
  shows "fst (runCommit md m w) = Inl e
       \<and> final (runCommit md m w) = w3
       \<and> filter is_logRun (trace (runCommit md m w)) = []"
  using assms
  by (simp add: runCommit_def bind_def call_def Let_def trace_def final_def)

theorem runCommit_commit_raises_witness:
  "fst (runCommit modules_sample (Main_init Converter_sample Commiter_raising PlanStore) w_day1)
     = Inl (OtherError ''commit failed'')
   \<and> final (runCommit modules_sample
              (Main_init Converter_sample Commiter_raising PlanStore) w_day1) = w_day1
   \<and> filter is_logRun
       (trace (runCommit modules_sample
                 (Main_init Converter_sample Commiter_raising PlanStore) w_day1)) = []
   \<and> fst (hasRun PlanStore (Some (Date 2024 1 1)) w_day1) = Inr (PBool False)"
  using runCommit_commit_raises
    [of "Main_init Converter_sample Commiter_raising PlanStore" modules_sample w_day1
        "PBool False" w_day1 "PInt 3" w_day1 "OtherError ''commit failed''" w_day1]
  by (simp add: sample_defs)

text \<open>
  C4, as stated, fails: on 2024-01-01 (count 3) \<open>logRun\<close> is called right after a
  \<open>commit\<close> that reported failure.
\<close>

theorem logRun_after_failed_commit:
  "reports_failure (Inr (PBool False))
   \<and> trace (runCommit modules_sample
              (Main_init Converter_sample Commiter_reporting PlanStore) w_day1) =
       [EHasRun (Some (Date 2024 1 1)) (Inr (PBool False)),
        EReadDate (Date 2024 1 1) (Inr (PInt 3)),
        ECommit (PInt 3) (Inr (PBool False)),
        ELogRun (Date 2024 1 1) (Inr PNone)]"
  by (simp add: exec_defs sample_defs)

text \<open>
  C4, amended. In every execution of \<open>_runCommit\<close>, either \<open>logRun\<close> is not called,
  or the trace is exactly: \<open>hasRun(today)\<close>, \<open>readDate(today)\<close>, a \<open>commit\<close> of the
  count read that returned without raising, \<open>logRun(today)\<close>. So \<open>logRun\<close> is called
  at most once and only after \<open>commit\<close> has returned, on zero-count days as well; the
  value \<open>commit\<close> returned is not looked at.
\<close>

theorem logRun_only_after_commit_returned:
  "filter is_logRun (trace (runCommit md m w)) = []
   \<or> (\<exists>h n c l.
        trace (runCommit md m w) =
          [EHasRun (Some (date_today md w)) (Inr h),
           EReadDate (date_today md w) (Inr n),
           ECommit n (Inr c),
           ELogRun (date_today md w) l])"
  by (auto simp: runCommit_def bind_def call_def Let_def trace_def
           split: prod.splits sum.splits if_splits)

text \<open>
  C8, as stated, fails: an exception raised by \<open>commit\<close> is the outcome of
  \<open>_runCommit\<close>.
\<close>

theorem commit_exception_leaves_runCommit:
  "reports_failure (fst (commit Commiter_raising (PInt 3) w_day1))
   \<and> fst (runCommit modules_sample
            (Main_init Converter_sample Commiter_raising PlanStore) w_day1)
       = Inl (OtherError ''commit failed'')"
  by (simp add: exec_defs sample_defs)

text \<open>
  C8, amended. Once \<open>hasRun\<close> and \<open>readDate\<close> have returned for a date that has not
  run, the outcome of \<open>_runCommit\<close> is: the exception of \<open>commit\<close> if it raised;
  otherwise, whatever value \<open>commit\<close> returned (one that reports failure too), the
  exception of \<open>logRun\<close> if that raised and \<open>None\<close> if it returned.
\<close>

theorem runCommit_outcome:
  assumes "hasRun (data_accesor m) (Some (date_today md w)) w = (Inr h, w1)"
    and "\<not> truthy h"
    and "readDate (data_accesor m) (date_today md w) w1 = (Inr n, w2)"
    and "commit (commiter m) n w2 = (rc, w3)"
  shows "fst (runCommit md m w) =
           (case rc of
              Inl e \<Rightarrow> Inl e
            | Inr c \<Rightarrow>
                (case fst (logRun (data_accesor m) (date_today md w) w3) of
                   Inl e \<Rightarrow> Inl e
                 | Inr l \<Rightarrow> Inr PNone))"
  using assms
  by (auto simp: runCommit_def bind_def call_def Let_def
           split: prod.splits sum.splits)

theorem runCommit_outcome_witness:
  "reports_failure (Inr (PBool False))
   \<and> fst (runCommit modules_sample
            (Main_init Converter_sample Commiter_reporting PlanStore) w_day1) = Inr PNone"
  using runCommit_outcome
    [of "Main_init Converter_sample Commiter_reporting PlanStore" modules_sample w_day1
        "PBool False" w_day1 "PInt 3" w_day1 "Inr (PBool False)" w_day1]
  by (simp add: sample_defs)

text \<open>
  C10. One \<open>_runCommit\<close> started in world \<open>w\<close> reads the date \<open>d\<close> once, at entry,
  and its trace is exactly one of four: \<open>hasRun(d)\<close> alone, when that call raised or
  returned true; \<open>hasRun(d)\<close>, \<open>readDate(d)\<close>, when the read raised;
  \<open>hasRun(d)\<close>, \<open>readDate(d)\<close>, \<open>commit(n)\<close> with \<open>n\<close> the count read for \<open>d\<close>,
  when \<open>commit\<close> raised; and these three followed by \<open>logRun(d)\<close>. Each call is
  made on the world the call before it left, so the check, the count read, the work and
  the completion record all refer to the entry date \<open>d\<close>, whatever the collaborators do
  to the clock in between.
\<close>

theorem runCommit_one_date:
  "let d = date_today md w; da = data_accesor m; tr = trace (runCommit md m w) in
   \<exists>r1 w1. hasRun da (Some d) w = (r1, w1) \<and>
     ((((\<exists>e. r1 = Inl e) \<or> (\<exists>h. r1 = Inr h \<and> truthy h))
        \<and> tr = [EHasRun (Some d) r1])
      \<or> (\<exists>h r2 w2. r1 = Inr h \<and> \<not> truthy h \<and> readDate da d w1 = (r2, w2) \<and>
            ((\<exists>e. r2 = Inl e \<and> tr = [EHasRun (Some d) r1, EReadDate d r2])
             \<or> (\<exists>n r3 w3. r2 = Inr n \<and> commit (commiter m) n w2 = (r3, w3) \<and>
                   ((\<exists>e. r3 = Inl e
                      \<and> tr = [EHasRun (Some d) r1, EReadDate d r2, ECommit n r3])
                    \<or> (\<exists>c r4 w4. r3 = Inr c \<and> logRun da d w3 = (r4, w4)
                          \<and> tr = [EHasRun (Some d) r1, EReadDate d r2, ECommit n r3,
                                  ELogRun d r4]))))))"
proof -
  obtain r1 w1 where h: "hasRun (data_accesor m) (Some (date_today md w)) w = (r1, w1)"
    by (cases "hasRun (data_accesor m) (Some (date_today md w)) w")
  obtain r2 w2 where r: "readDate (data_accesor m) (date_today md w) w1 = (r2, w2)"
    by (cases "readDate (data_accesor m) (date_today md w) w1")
  show ?thesis
  proof (cases r1)
    case (Inl e)
    then show ?thesis using h
      by (simp add: runCommit_def bind_def call_def Let_def trace_def)
  next
    case r1: (Inr hv)
    show ?thesis
    proof (cases "truthy hv")
      case True
      then show ?thesis using h r1
        by (simp add: runCommit_def bind_def call_def Let_def trace_def)
    next
      case False
      show ?thesis
      proof (cases r2)
        case (Inl e)
        then show ?thesis using h r1 False r
          by (simp add: runCommit_def bind_def call_def Let_def trace_def)
      next
        case r2: (Inr n)
        obtain r3 w3 where c: "commit (commiter m) n w2 = (r3, w3)"
          by (cases "commit (commiter m) n w2")
        obtain r4 w4 where l: "logRun (data_accesor m) (date_today md w) w3 = (r4, w4)"
          by (cases "logRun (data_accesor m) (date_today md w) w3")
        show ?thesis
        proof (cases r3)
          case (Inl e)
          then show ?thesis using h r1 False r r2 c
            by (simp add: runCommit_def bind_def call_def Let_def trace_def)
        next
          case (Inr cv)
          then show ?thesis using h r1 False r r2 c l
            by (simp add: runCommit_def bind_def call_def Let_def trace_def
                     split: sum.splits)
        qed
      qed
    qed
  qed
qed

theorem runCommit_one_date_witness:
  "trace (runCommit modules_sample
            (Main_init Converter_sample Commiter_overnight PlanStore) w_day1) =
     [EHasRun (Some (Date 2024 1 1)) (Inr (PBool False)),
      EReadDate (Date 2024 1 1) (Inr (PInt 3)),
      ECommit (PInt 3) (Inr PNone),
      ELogRun (Date 2024 1 1) (Inr PNone)]
   \<and> date_today modules_sample w_day1 = Date 2024 1 1
   \<and> date_today modules_sample (snd (commit Commiter_overnight (PInt 3) w_day1))
       = Date 2024 1 2"
  using runCommit_one_date
    [of modules_sample w_day1 "Main_init Converter_sample Commiter_overnight PlanStore"]
  by (simp add: sample_defs Let_def)

section \<open>Bootstrap and catch-up in \<open>Main.run\<close>\<close>

lemma call_keeps:
  assumes "keeps obs f"
  shows "obs (final (call ev f w)) = obs w"
proof -
  obtain r w' where fw: "f w = (r, w')" by (cases "f w")
  have "obs (snd (f w)) = obs w" using assms by (simp add: keeps_def)
  then show ?thesis using fw by (simp add: call_def final_def)
qed

lemma bind_keeps:
  assumes "obs (final r) = x"
    and "\<And>v w. obs (final (f v w)) = obs w"
  shows "obs (final (bind r f)) = x"
proof (cases r)
  case (fields a w t)
  show ?thesis
  proof (cases a)
    case (Inl e)
    then show ?thesis using assms(1) fields by (simp add: bind_def final_def)
  next
    case (Inr v)
    have "obs (final (f v w)) = obs w" by (rule assms(2))
    then show ?thesis using assms(1) fields Inr
      by (auto simp: bind_def final_def split: prod.splits)
  qed
qed

lemma runCommit_keeps:
  assumes "plan_readers obs md m"
  shows "obs (final (runCommit md m w)) = obs w"
proof -
  have k1: "keeps obs (hasRun (data_accesor m) d)" for d
    using assms by (simp add: plan_readers_def)
  have k2: "keeps obs (readDate (data_accesor m) d)" for d
    using assms by (simp add: plan_readers_def)
  have k3: "keeps obs (logRun (data_accesor m) d)" for d
    using assms by (simp add: plan_readers_def)
  have k4: "keeps obs (commit (commiter m) n)" for n
    using assms by (simp add: plan_readers_def)
  have ret: "obs (final (Inr PNone, w4, [])) = obs w4" for w4 :: 'a
    by (simp add: final_def)
  show ?thesis
    unfolding runCommit_def Let_def
    apply (rule bind_keeps)
     apply (rule call_keeps [OF k1])
    apply (simp add: ret)
    apply (rule impI)
    apply (rule bind_keeps)
     apply (rule call_keeps [OF k2])
    apply (rule bind_keeps)
     apply (rule call_keeps [OF k4])
    apply (rule bind_keeps)
     apply (rule call_keeps [OF k3])
    apply (rule ret)
    done
qed


lemma final_bind_Inr: "final (bind (Inr v, w, t) f) = final (f v w)"
  by (simp add: bind_def final_def split: prod.splits)

lemma run_keeps:
  assumes "plan_readers obs md m"
    and "getStatus (data_accesor m) w = (Inr s, x)"
    and "truthy s"
  shows "obs (final (run md m w)) = obs w"
proof -
  have k1: "keeps obs (getStatus (data_accesor m))"
    using assms(1) by (simp add: plan_readers_def)
  have k2: "keeps obs (hasRun (data_accesor m) d)" for d
    using assms(1) by (simp add: plan_readers_def)
  have k3: "keeps obs (schedule_every md t)" for t
    using assms(1) by (simp add: plan_readers_def)
  have ret: "obs (final (Inr PNone, w4, [])) = obs w4" for w4 :: 'a
    by (simp add: final_def)
  have c: "call EGetStatus (getStatus (data_accesor m)) w = (Inr s, x, [EGetStatus (Inr s)])"
    using assms(2) by (simp add: call_def)
  have x: "obs x = obs w"
    using call_keeps [OF k1, of EGetStatus w] c by (simp add: final_def)
  have tail: "obs (final
      (bind (call (EHasRun None) (hasRun (data_accesor m) None) w2) (\<lambda>h w3.
       bind (if \<not> truthy h then runCommit md m w3 else (Inr PNone, w3, [])) (\<lambda>c w4.
       bind (call (ESchedule (schedule_time m)) (schedule_every md (schedule_time m)) w4)
         (\<lambda>j w5. (Inr PNone, w5, [])))))) = obs w2" for w2
    apply (rule bind_keeps)
     apply (rule call_keeps [OF k2])
    apply (rule bind_keeps)
     apply (simp add: runCommit_keeps [OF assms(1)] ret)
    apply (rule bind_keeps)
     apply (rule call_keeps [OF k3])
    apply (rule ret)
    done
  have "obs (final (run md m w)) = obs x"
    unfolding run_def c
    by (simp add: final_bind_Inr assms(3) tail)
  then show ?thesis using x by simp
qed

lemma run_initialized_no_bootstrap:
  assumes "getStatus (data_accesor m) w = (Inr s, x)"
    and "truthy s"
    and "run md m w = (r, w', t)"
  shows "filter is_convert t = [] \<and> filter is_createDict t = []"
  using assms
  by (auto simp: run_def bind_def call_def
           split: prod.splits sum.splits if_splits
           dest: runCommit_no_bootstrap_calls)

text \<open>
  C5. Two calls of \<open>run\<close> in sequence, each of which finds the store initialized
  (\<open>getStatus\<close> true), make no call of \<open>convert\<close> and no call of \<open>createDict\<close>;
  and whatever the other methods leave unchanged (the persisted plan) is after the two
  calls what it was before.
\<close>

theorem run_twice_no_bootstrap:
  assumes "getStatus (data_accesor m) w = (Inr s1, x1)"
    and "truthy s1"
    and "run md m w = (r1, w1, t1)"
    and "getStatus (data_accesor m) w1 = (Inr s2, x2)"
    and "truthy s2"
    and "run md m w1 = (r2, w2, t2)"
    and "plan_readers obs md m"
  shows "filter is_convert (t1 @ t2) = []
       \<and> filter is_createDict (t1 @ t2) = []
       \<and> obs w2 = obs w"
proof -
  have a: "filter is_convert t1 = [] \<and> filter is_createDict t1 = []"
    by (rule run_initialized_no_bootstrap [OF assms(1) assms(2) assms(3)])
  have b: "filter is_convert t2 = [] \<and> filter is_createDict t2 = []"
    by (rule run_initialized_no_bootstrap [OF assms(4) assms(5) assms(6)])
  have c: "obs w1 = obs w"
    using run_keeps [OF assms(7) assms(1) assms(2), of ] assms(3) by (simp add: final_def)
  have d: "obs w2 = obs w1"
    using run_keeps [OF assms(7) assms(4) assms(5)] assms(6) by (simp add: final_def)
  show ?thesis using a b c d by simp
qed

lemma run_sample_first:
  "run modules_sample (Main_init Converter_sample Commiter_ok PlanStore_today) w_day1 =
     (Inl AttributeError,
      w_day1\<lparr>runlog := [Date 2024 1 1], performed := [PInt 3]\<rparr>,
      [EGetStatus (Inr (PBool True)), EHasRun None (Inr (PBool False)),
       EHasRun (Some (Date 2024 1 1)) (Inr (PBool False)),
       EReadDate (Date 2024 1 1) (Inr (PInt 3)), ECommit (PInt 3) (Inr PNone),
       ELogRun (Date 2024 1 1) (Inr PNone), ESchedule ''06:00'' (Inl AttributeError)])"
  by (simp add: exec_defs sample_defs)

lemma run_sample_second:
  "run modules_sample (Main_init Converter_sample Commiter_ok PlanStore_today)
     (w_day1\<lparr>runlog := [Date 2024 1 1], performed := [PInt 3]\<rparr>) =
     (Inl AttributeError,
      w_day1\<lparr>runlog := [Date 2024 1 1], performed := [PInt 3]\<rparr>,
      [EGetStatus (Inr (PBool True)), EHasRun None (Inr (PBool True)),
       ESchedule ''06:00'' (Inl AttributeError)])"
  by (simp add: exec_defs sample_defs)

lemma sample_plan_readers:
  "plan_readers plan modules_sample (Main_init Converter_sample Commiter_ok PlanStore_today)"
  by (simp add: plan_readers_def keeps_def sample_defs split: option.splits)

theorem run_twice_no_bootstrap_witness:
  "filter is_convert
     ([EGetStatus (Inr (PBool True)), EHasRun None (Inr (PBool False)),
       EHasRun (Some (Date 2024 1 1)) (Inr (PBool False)),
       EReadDate (Date 2024 1 1) (Inr (PInt 3)), ECommit (PInt 3) (Inr PNone),
       ELogRun (Date 2024 1 1) (Inr PNone), ESchedule ''06:00'' (Inl AttributeError)]
      @ [EGetStatus (Inr (PBool True)), EHasRun None (Inr (PBool True)),
         ESchedule ''06:00'' (Inl AttributeError)]) = []
   \<and> filter is_createDict
     ([EGetStatus (Inr (PBool True)), EHasRun None (Inr (PBool False)),
       EHasRun (Some (Date 2024 1 1)) (Inr (PBool False)),
       EReadDate (Date 2024 1 1) (Inr (PInt 3)), ECommit (PInt 3) (Inr PNone),
       ELogRun (Date 2024 1 1) (Inr PNone), ESchedule ''06:00'' (Inl AttributeError)]
      @ [EGetStatus (Inr (PBool True)), EHasRun None (Inr (PBool True)),
         ESchedule ''06:00'' (Inl AttributeError)]) = []
   \<and> plan (w_day1\<lparr>runlog := [Date 2024 1 1], performed := [PInt 3]\<rparr>) = plan w_day1"
proof -
  have a: "getStatus (data_accesor (Main_init Converter_sample Commiter_ok PlanStore_today))
             w_day1 = (Inr (PBool True), w_day1)"
    by (simp add: sample_defs)
  have b: "getStatus (data_accesor (Main_init Converter_sample Commiter_ok PlanStore_today))
             (w_day1\<lparr>runlog := [Date 2024 1 1], performed := [PInt 3]\<rparr>)
           = (Inr (PBool True),
              w_day1\<lparr>runlog := [Date 2024 1 1], performed := [PInt 3]\<rparr>)"
    by (simp add: sample_defs)
  have t: "truthy (PBool True)" by simp
  show ?thesis
    by (rule run_twice_no_bootstrap
               [OF a t run_sample_first b t run_sample_second sample_plan_readers])
qed

text \<open>
  C6 at a failing input. The store is initialized and 2024-01-01 has not run; the data
  accessor has the signature of \<open>DataAccess.py\<close>. \<open>run\<close> calls \<open>hasRun\<close> without a
  date, the call raises \<open>TypeError\<close>, and \<open>run\<close> ends with that exception: no
  \<open>_runCommit\<close> has been executed and no job has been registered.
\<close>

theorem run_catch_up_without_date:
  "fst (getStatus PlanStore w_day1) = Inr (PBool True)
   \<and> fst (hasRun PlanStore (Some (date_today modules_sample w_day1)) w_day1) = Inr (PBool False)
   \<and> run modules_sample (Main_init Converter_sample Commiter_ok PlanStore) w_day1 =
       (Inl TypeError, w_day1,
        [EGetStatus (Inr (PBool True)), EHasRun None (Inl TypeError)])"
  by (simp add: exec_defs sample_defs)

text \<open>
  C7 at a failing input. After \<open>createDict\<close> with a plan that gives 2024-01-01 the
  count 3, \<open>readDate\<close> of \<open>DataAccess.py\<close> returns \<open>None\<close> for 2024-01-01 (in the
  plan) and for 2024-03-05 (absent from it): neither 3 nor 0.
\<close>

theorem DataAccess_readDate_returns_None:
  "fst (readDate (DataAccess_init ''db'') (Date 2024 1 1)
          (snd (createDict (DataAccess_init ''db'') (PDict plan_sample) w_fresh))) = Inr PNone
   \<and> fst (readDate (DataAccess_init ''db'') (Date 2024 3 5)
          (snd (createDict (DataAccess_init ''db'') (PDict plan_sample) w_fresh))) = Inr PNone
   \<and> map_of plan_sample (Date 2024 1 1) = Some 3
   \<and> map_of plan_sample (Date 2024 3 5) = None"
  by (simp add: sample_defs)

text \<open>
  C9. When \<open>run\<close> finds the store not initialized and \<open>convert\<close> raises, or
  \<open>convert\<close> returns and \<open>createDict\<close> raises, \<open>run\<close> ends with that exception on
  the world the failing call left, and its trace holds no registration of the job.
\<close>

theorem run_bootstrap_failure:
  assumes "getStatus (data_accesor m) w = (Inr s, w1)"
    and "\<not> truthy s"
    and "convert (converter m) None w1 = (Inl e, w2)
         \<or> (\<exists>p w'. convert (converter m) None w1 = (Inr p, w')
                  \<and> createDict (data_accesor m) p w' = (Inl e, w2))"
  shows "fst (run md m w) = Inl e
       \<and> final (run md m w) = w2
       \<and> filter is_schedule (trace (run md m w)) = []
       \<and> filter is_commit (trace (run md m w)) = []"
  using assms
  by (auto simp: run_def setupPlan_def bind_def call_def trace_def final_def)

theorem run_bootstrap_failure_witness:
  "(fst (run modules_sample (Main_init IConverter_init Commiter_ok (DataAccess_init ''db''))
           w_fresh) = Inl TypeError
    \<and> final (run modules_sample (Main_init IConverter_init Commiter_ok (DataAccess_init ''db''))
           w_fresh) = w_fresh
    \<and> filter is_schedule
        (trace (run modules_sample
                  (Main_init IConverter_init Commiter_ok (DataAccess_init ''db'')) w_fresh)) = []
    \<and> filter is_commit
        (trace (run modules_sample
                  (Main_init IConverter_init Commiter_ok (DataAccess_init ''db'')) w_fresh)) = [])
   \<and> (fst (run modules_sample (Main_init Converter_sample Commiter_ok PlanStore)
             (w_fresh\<lparr>writable := False\<rparr>)) = Inl (OtherError ''StorageFailure'')
      \<and> final (run modules_sample (Main_init Converter_sample Commiter_ok PlanStore)
             (w_fresh\<lparr>writable := False\<rparr>)) = w_fresh\<lparr>writable := False\<rparr>
      \<and> filter is_schedule
          (trace (run modules_sample (Main_init Converter_sample Commiter_ok PlanStore)
             (w_fresh\<lparr>writable := False\<rparr>))) = []
      \<and> filter is_commit
          (trace (run modules_sample (Main_init Converter_sample Commiter_ok PlanStore)
             (w_fresh\<lparr>writable := False\<rparr>))) = [])"
  using run_bootstrap_failure
    [of "Main_init IConverter_init Commiter_ok (DataAccess_init ''db'')" w_fresh
        PNone w_fresh TypeError w_fresh modules_sample]
    run_bootstrap_failure
    [of "Main_init Converter_sample Commiter_ok PlanStore" "w_fresh\<lparr>writable := False\<rparr>"
        "PBool False" "w_fresh\<lparr>writable := False\<rparr>" "OtherError ''StorageFailure''"
        "w_fresh\<lparr>writable := False\<rparr>" modules_sample]
  by (simp add: sample_defs)

end
